theory Spec2Isabelle
  imports Complex_Main "HOL-Library.Log_Nat"
begin

section \<open>Data model\<close>

text \<open>
  The status column of \<open>job_applications\<close> and the \<open>fromStatus\<close>/\<open>toStatus\<close> columns of
  \<open>status_history\<close> are the same ENUM of 14 string values (models/JobApplication.js,
  models/StatusHistory.js).  The constructors follow the order of the ENUM declaration.
\<close>

datatype status =
    Interested
  | Applied
  | Application_Viewed
  | Phone_Screening
  | Technical_Interview
  | On_site_Interview
  | Final_Interview
  | Reference_Check
  | Offer_Extended
  | Offer_Accepted
  | Offer_Declined
  | Rejected
  | Withdrawn
  | On_Hold

text \<open>\<open>changedBy\<close>: ENUM('User', 'System', 'Auto').\<close>

datatype actor = User | System | Auto

text \<open>Primary and foreign keys are UUIDs; only their identity matters.\<close>

type_synonym uuid = nat

text \<open>
  One row of \<open>status_history\<close>.  \<open>fromStatus\<close> is nullable (\<open>allowNull: true\<close>), \<open>toStatus\<close>
  is not.  Rows are kept in the order in which they were inserted, which is the order of
  their \<open>createdAt\<close> timestamps.
\<close>

record StatusHistory =
  sh_jobApplicationId :: uuid
  fromStatus :: "status option"
  toStatus :: status
  changedBy :: actor
  sh_notes :: "string option"

section \<open>StatusHistory.prototype.isPositiveChange\<close>

text \<open>JavaScript \<open>Array.prototype.includes\<close> and \<open>Array.prototype.indexOf\<close> (\<open>-1\<close> when absent).\<close>

fun array_includes :: "'a list \<Rightarrow> 'a \<Rightarrow> bool" where
  "array_includes [] x = False"
| "array_includes (y # ys) x = (if y = x then True else array_includes ys x)"

fun indexOf_from :: "int \<Rightarrow> 'a list \<Rightarrow> 'a \<Rightarrow> int" where
  "indexOf_from i [] x = - 1"
| "indexOf_from i (y # ys) x = (if y = x then i else indexOf_from (i + 1) ys x)"

definition indexOf :: "'a list \<Rightarrow> 'a \<Rightarrow> int" where
  "indexOf xs x = indexOf_from 0 xs x"

definition statusProgression :: "status list" where
  "statusProgression =
     [Interested, Applied, Application_Viewed, Phone_Screening, Technical_Interview,
      On_site_Interview, Final_Interview, Reference_Check, Offer_Extended, Offer_Accepted]"

definition negativeStatuses :: "status list" where
  "negativeStatuses = [Rejected, Withdrawn, Offer_Declined]"

definition neutralStatuses :: "status list" where
  "neutralStatuses = [On_Hold]"

text \<open>
  The four returns of the source, in its order: negative target, neutral target, no previous
  status, and the comparison of the two positions in the progression.
\<close>

definition isPositiveChange :: "StatusHistory \<Rightarrow> bool" where
  "isPositiveChange this =
     (if array_includes negativeStatuses (toStatus this) then False
      else if array_includes neutralStatuses (toStatus this) then False
      else (case fromStatus this of
              None \<Rightarrow> True
            | Some fromS \<Rightarrow>
                (let fromIndex = indexOf statusProgression fromS;
                     toIndex = indexOf statusProgression (toStatus this)
                 in toIndex > fromIndex)))"

text \<open>A history row with the given endpoints (the other columns do not enter the classification).\<close>

definition transition :: "uuid \<Rightarrow> status option \<Rightarrow> status \<Rightarrow> StatusHistory" where
  "transition aid fromS toS =
     \<lparr>sh_jobApplicationId = aid, fromStatus = fromS, toStatus = toS, changedBy = User,
      sh_notes = None\<rparr>"


section \<open>Tables\<close>

text \<open>
  The columns of \<open>job_applications\<close> that the route handlers of routes/applications.js read
  or write in the operations verified here.  \<open>salaryMin\<close> and \<open>salaryMax\<close> are nullable
  INTEGER columns; \<open>status\<close> has \<open>defaultValue: 'Interested'\<close>.
\<close>

record JobApplication =
  app_id :: uuid
  userId :: uuid
  companyId :: uuid
  status :: status
  salaryMin :: "int option"
  salaryMax :: "int option"

record ApplicationKeyword =
  ak_jobApplicationId :: uuid
  keywordId :: uuid

text \<open>\<open>documents.jobApplicationId\<close> is a nullable link (\<open>allowNull: true\<close>).\<close>

record Document =
  doc_id :: uuid
  doc_userId :: uuid
  doc_jobApplicationId :: "uuid option"
  isActive :: bool

record Company =
  company_id :: uuid
  company_name :: string

text \<open>The store: one list of rows per table, each in insertion order.\<close>

record db =
  job_applications :: "JobApplication list"
  status_history :: "StatusHistory list"
  application_keywords :: "ApplicationKeyword list"
  documents :: "Document list"
  companies :: "Company list"

text \<open>
  Every awaited call on the store may reject (its promise throws into the handler's
  \<open>catch\<close>).  A handler is run with the set of calls that reject during that request.
\<close>

datatype db_call =
    Company_findByPk
  | JobApplication_findOne
  | JobApplication_findByPk
  | JobApplication_create
  | JobApplication_update
  | JobApplication_destroy
  | StatusHistory_create
  | StatusHistory_destroy
  | ApplicationKeyword_destroy
  | Document_destroy
  | Transaction_commit

text \<open>The HTTP status of the response: 200, 201, 400, 404, 500.\<close>

datatype response = OK | Created | Bad_Request | Not_Found | Server_Error

section \<open>Request bodies and JavaScript truthiness\<close>

text \<open>
  The fields of \<open>req.body\<close> that the handlers inspect; \<open>None\<close> is an absent field.  The POST
  route has no validator for \<open>status\<close> but the column is the ENUM; the PUT route validates
  \<open>status\<close> with \<open>isIn\<close> over the 14 values.  \<open>application.update(req.body)\<close> assigns every
  model attribute present in the body, \<open>userId\<close> included.  The validators of the other
  fields (\<open>jobTitle\<close>, \<open>jobUrl\<close>, \<open>location\<close>, \<open>priority\<close>) reject a request before any
  access to the store and are not modelled: a request is one that passes them.
\<close>

record create_body =
  cb_companyId :: "uuid option"
  cb_status :: "status option"
  cb_salaryMin :: "int option"
  cb_salaryMax :: "int option"

record update_body =
  ub_status :: "status option"
  ub_statusNotes :: "string option"
  ub_salaryMin :: "int option"
  ub_salaryMax :: "int option"
  ub_userId :: "uuid option"

text \<open>\<open>body(f).optional().isInt({ min: 0 })\<close>: an absent field passes, a present one must be \<open>\<ge> 0\<close>.\<close>

definition isInt_min0 :: "int option \<Rightarrow> bool" where
  "isInt_min0 v = (case v of None \<Rightarrow> True | Some n \<Rightarrow> 0 \<le> n)"

text \<open>
  A number (or \<open>undefined\<close>/\<open>null\<close>) used as a condition: \<open>undefined\<close>, \<open>null\<close> and \<open>0\<close> are falsy.
  \<open>a || b\<close> is \<open>a\<close> when \<open>a\<close> is truthy and \<open>b\<close> otherwise.
\<close>

definition truthy :: "int option \<Rightarrow> bool" where
  "truthy v = (case v of None \<Rightarrow> False | Some n \<Rightarrow> n \<noteq> 0)"

definition js_or :: "int option \<Rightarrow> int option \<Rightarrow> int option" where
  "js_or a b = (if truthy a then a else b)"

text \<open>\<open>salaryMin && salaryMax && salaryMin > salaryMax\<close>.\<close>

definition salaryRangeRejected :: "int option \<Rightarrow> int option \<Rightarrow> bool" where
  "salaryRangeRejected mn mx =
     (if truthy mn then
        (if truthy mx then
           (case (mn, mx) of (Some a, Some b) \<Rightarrow> a > b | _ \<Rightarrow> False)
         else False)
      else False)"

text \<open>\<open>req.body.statusNotes || null\<close>: the empty string is falsy.\<close>

definition notes_or_null :: "string option \<Rightarrow> string option" where
  "notes_or_null v = (case v of None \<Rightarrow> None | Some s \<Rightarrow> (if s = [] then None else Some s))"

section \<open>Queries\<close>

text \<open>\<open>JobApplication.findOne({ where: { id, userId } })\<close> and \<open>Company.findByPk(id)\<close>.\<close>

definition JobApplication_findOne_where :: "db \<Rightarrow> uuid \<Rightarrow> uuid \<Rightarrow> JobApplication option" where
  "JobApplication_findOne_where d aid uid =
     find (\<lambda>a. app_id a = aid \<and> userId a = uid) (job_applications d)"

definition Company_findByPk_where :: "db \<Rightarrow> uuid \<Rightarrow> Company option" where
  "Company_findByPk_where d cid = find (\<lambda>c. company_id c = cid) (companies d)"

text \<open>The primary key of \<open>job_applications\<close>: an insert with an id already present is refused.\<close>

definition id_taken :: "db \<Rightarrow> uuid \<Rightarrow> bool" where
  "id_taken d aid = (find (\<lambda>a. app_id a = aid) (job_applications d) \<noteq> None)"

section \<open>POST /api/applications\<close>

text \<open>
  \<open>createApplication reqUser body newId failing d\<close>: the handler run by the authenticated
  user \<open>reqUser\<close>; \<open>newId\<close> is the primary key the new row receives (\<open>UUIDV4\<close> default).  In the
  source's order: validators, company lookup, salary range, \<open>JobApplication.create\<close>,
  \<open>StatusHistory.create\<close>, \<open>JobApplication.findByPk\<close>.  Each write is committed when its
  call returns; there is no transaction.
\<close>

definition createApplication ::
  "uuid \<Rightarrow> create_body \<Rightarrow> uuid \<Rightarrow> db_call set \<Rightarrow> db \<Rightarrow> response \<times> db" where
  "createApplication reqUser body newId failing d =
     (if \<not> (isInt_min0 (cb_salaryMin body) \<and> isInt_min0 (cb_salaryMax body)) then (Bad_Request, d)
      else
        (case cb_companyId body of
           None \<Rightarrow> (Bad_Request, d)
         | Some cid \<Rightarrow>
             if Company_findByPk \<in> failing then (Server_Error, d)
             else if Company_findByPk_where d cid = None then (Not_Found, d)
             else if salaryRangeRejected (cb_salaryMin body) (cb_salaryMax body) then (Bad_Request, d)
             else if JobApplication_create \<in> failing \<or> id_taken d newId then (Server_Error, d)
             else
               (let application =
                      \<lparr>app_id = newId, userId = reqUser, companyId = cid,
                       status = (case cb_status body of None \<Rightarrow> Interested | Some s \<Rightarrow> s),
                       salaryMin = cb_salaryMin body, salaryMax = cb_salaryMax body\<rparr>;
                    d1 = d\<lparr>job_applications := job_applications d @ [application]\<rparr>
                in if StatusHistory_create \<in> failing then (Server_Error, d1)
                   else
                     (let d2 = d1\<lparr>status_history := status_history d1 @
                                  [\<lparr>sh_jobApplicationId = app_id application, fromStatus = None,
                                    toStatus = status application, changedBy = User,
                                    sh_notes = None\<rparr>]\<rparr>
                      in if JobApplication_findByPk \<in> failing then (Server_Error, d2)
                         else (Created, d2)))))"

section \<open>PUT /api/applications/:id\<close>

text \<open>\<open>application.update(req.body)\<close> on one row: the attributes present in the body are assigned.\<close>

definition assign_body :: "update_body \<Rightarrow> JobApplication \<Rightarrow> JobApplication" where
  "assign_body body a =
     a\<lparr>status := (case ub_status body of None \<Rightarrow> status a | Some s \<Rightarrow> s),
       salaryMin := (case ub_salaryMin body of None \<Rightarrow> salaryMin a | Some n \<Rightarrow> Some n),
       salaryMax := (case ub_salaryMax body of None \<Rightarrow> salaryMax a | Some n \<Rightarrow> Some n),
       userId := (case ub_userId body of None \<Rightarrow> userId a | Some u \<Rightarrow> u)\<rparr>"

text \<open>The UPDATE statement it issues: \<open>WHERE id = application.id\<close>.\<close>

definition JobApplication_update_where :: "uuid \<Rightarrow> update_body \<Rightarrow> db \<Rightarrow> db" where
  "JobApplication_update_where aid body d =
     d\<lparr>job_applications :=
         map (\<lambda>a. if app_id a = aid then assign_body body a else a) (job_applications d)\<rparr>"

definition updateApplication ::
  "uuid \<Rightarrow> uuid \<Rightarrow> update_body \<Rightarrow> db_call set \<Rightarrow> db \<Rightarrow> response \<times> db" where
  "updateApplication reqUser aid body failing d =
     (if \<not> (isInt_min0 (ub_salaryMin body) \<and> isInt_min0 (ub_salaryMax body)) then (Bad_Request, d)
      else if JobApplication_findOne \<in> failing then (Server_Error, d)
      else
        (case JobApplication_findOne_where d aid reqUser of
           None \<Rightarrow> (Not_Found, d)
         | Some application \<Rightarrow>
             (let salaryMin' = js_or (ub_salaryMin body) (salaryMin application);
                  salaryMax' = js_or (ub_salaryMax body) (salaryMax application)
              in if salaryRangeRejected salaryMin' salaryMax' then (Bad_Request, d)
                 else
                   (let oldStatus = status application;
                        newStatus = ub_status body
                    in if JobApplication_update \<in> failing then (Server_Error, d)
                       else
                         (let d1 = JobApplication_update_where (app_id application) body d
                          in case newStatus of
                               None \<Rightarrow>
                                 (if JobApplication_findByPk \<in> failing then (Server_Error, d1)
                                  else (OK, d1))
                             | Some new \<Rightarrow>
                                 if new \<noteq> oldStatus then
                                   (if StatusHistory_create \<in> failing then (Server_Error, d1)
                                    else
                                      (let d2 = d1\<lparr>status_history := status_history d1 @
                                                   [\<lparr>sh_jobApplicationId = app_id application,
                                                     fromStatus = Some oldStatus, toStatus = new,
                                                     changedBy = User,
                                                     sh_notes = notes_or_null (ub_statusNotes body)\<rparr>]\<rparr>
                                       in if JobApplication_findByPk \<in> failing then (Server_Error, d2)
                                          else (OK, d2)))
                                 else
                                   (if JobApplication_findByPk \<in> failing then (Server_Error, d1)
                                    else (OK, d1)))))))"

section \<open>DELETE /api/applications/:id\<close>

text \<open>The four \<open>destroy\<close> statements, each \<open>WHERE jobApplicationId = id\<close> (or \<open>WHERE id = id\<close>).\<close>

definition StatusHistory_destroy_where :: "uuid \<Rightarrow> db \<Rightarrow> db" where
  "StatusHistory_destroy_where aid d =
     d\<lparr>status_history := filter (\<lambda>h. sh_jobApplicationId h \<noteq> aid) (status_history d)\<rparr>"

definition ApplicationKeyword_destroy_where :: "uuid \<Rightarrow> db \<Rightarrow> db" where
  "ApplicationKeyword_destroy_where aid d =
     d\<lparr>application_keywords :=
         filter (\<lambda>k. ak_jobApplicationId k \<noteq> aid) (application_keywords d)\<rparr>"

definition Document_destroy_where :: "uuid \<Rightarrow> db \<Rightarrow> db" where
  "Document_destroy_where aid d =
     d\<lparr>documents := filter (\<lambda>x. doc_jobApplicationId x \<noteq> Some aid) (documents d)\<rparr>"

definition JobApplication_destroy_where :: "uuid \<Rightarrow> db \<Rightarrow> db" where
  "JobApplication_destroy_where aid d =
     d\<lparr>job_applications := filter (\<lambda>a. app_id a \<noteq> aid) (job_applications d)\<rparr>"

text \<open>
  \<open>deleteApplication reqUser aid failing d\<close>.  \<open>sequelize.transaction()\<close> opens a transaction
  \<open>t0\<close> on the committed store \<open>d\<close>; every statement is passed \<open>transaction\<close> and works on the
  transaction's view; \<open>transaction.commit()\<close> makes the view the committed store, and
  \<open>transaction.rollback()\<close> (not found, or the \<open>catch\<close>) leaves \<open>d\<close> as it was.
\<close>

definition deleteApplication ::
  "uuid \<Rightarrow> uuid \<Rightarrow> db_call set \<Rightarrow> db \<Rightarrow> response \<times> db" where
  "deleteApplication reqUser aid failing d =
     (let t0 = d
      in if JobApplication_findOne \<in> failing then (Server_Error, d)
         else
           (case JobApplication_findOne_where t0 aid reqUser of
              None \<Rightarrow> (Not_Found, d)
            | Some application \<Rightarrow>
                if StatusHistory_destroy \<in> failing then (Server_Error, d)
                else
                  (let t1 = StatusHistory_destroy_where (app_id application) t0
                   in if ApplicationKeyword_destroy \<in> failing then (Server_Error, d)
                      else
                        (let t2 = ApplicationKeyword_destroy_where (app_id application) t1
                         in if Document_destroy \<in> failing then (Server_Error, d)
                            else
                              (let t3 = Document_destroy_where (app_id application) t2
                               in if JobApplication_destroy \<in> failing then (Server_Error, d)
                                  else
                                    (let t4 = JobApplication_destroy_where (app_id application) t3
                                     in if Transaction_commit \<in> failing then (Server_Error, d)
                                        else (OK, t4)))))))"

section \<open>GET /api/applications/:id\<close>



section \<open>Sequences of operations\<close>

datatype request =
    Create uuid create_body uuid
  | Update uuid uuid update_body
  | Delete uuid uuid

fun handle :: "request \<Rightarrow> db_call set \<Rightarrow> db \<Rightarrow> response \<times> db" where
  "handle (Create reqUser body newId) failing d = createApplication reqUser body newId failing d"
| "handle (Update reqUser aid body) failing d = updateApplication reqUser aid body failing d"
| "handle (Delete reqUser aid) failing d = deleteApplication reqUser aid failing d"

text \<open>Requests are served one after the other, each with its own set of rejecting calls.\<close>

fun run :: "(request \<times> db_call set) list \<Rightarrow> db \<Rightarrow> db" where
  "run [] d = d"
| "run ((r, failing) # rest) d = run rest (snd (handle r failing d))"

text \<open>
  The most recent history row of an application (the last one inserted for its id), and the
  consistency of ledger and aggregate: every application has a most recent row, and its
  \<open>toStatus\<close> is the application's \<open>status\<close>.
\<close>

definition latest_history :: "db \<Rightarrow> uuid \<Rightarrow> StatusHistory option" where
  "latest_history d aid =
     (case filter (\<lambda>h. sh_jobApplicationId h = aid) (status_history d) of
        [] \<Rightarrow> None
      | h # hs \<Rightarrow> Some (last (h # hs)))"

definition ledger_consistent :: "db \<Rightarrow> bool" where
  "ledger_consistent d =
     list_all (\<lambda>a. case latest_history d (app_id a) of
                     None \<Rightarrow> False
                   | Some h \<Rightarrow> toStatus h = status a)
       (job_applications d)"

text \<open>Salary invariant of one row.\<close>

definition salary_ordered :: "JobApplication \<Rightarrow> bool" where
  "salary_ordered a =
     (case (salaryMin a, salaryMax a) of (Some mn, Some mx) \<Rightarrow> mn \<le> mx | _ \<Rightarrow> True)"



section \<open>JavaScript numbers\<close>

text \<open>
  A JavaScript number is an IEEE 754 binary64 value.  The values met here are finite,
  non-negative and far from the subnormal and overflow ranges, so a number is modelled by
  the rational it denotes, and an arithmetic operation by the exact operation followed by
  rounding to the nearest value with a 53-bit significand, ties to the even significand.
\<close>

definition round_half_even :: "rat \<Rightarrow> int" where
  "round_half_even q =
     (let f = \<lfloor>q\<rfloor>; r = q - of_int f
      in if r < 1 / 2 then f
         else if 1 / 2 < r then f + 1
         else if even f then f else f + 1)"

text \<open>The binary exponent of a positive rational: \<open>2 powi e \<le> x < 2 powi (e + 1)\<close>.\<close>

definition binary_exponent :: "rat \<Rightarrow> int" where
  "binary_exponent x =
     (let (p, q) = quotient_of x; e = bitlen p - bitlen q
      in if 2 powi e \<le> x then e else e - 1)"

definition to_double :: "rat \<Rightarrow> rat" where
  "to_double x =
     (if x = 0 then 0
      else (let e = binary_exponent \<bar>x\<bar> - 52
            in of_int (round_half_even (x / 2 powi e)) * 2 powi e))"

definition js_divide :: "rat \<Rightarrow> rat \<Rightarrow> rat" where
  "js_divide x y = to_double (x / y)"

definition js_times :: "rat \<Rightarrow> rat \<Rightarrow> rat" where
  "js_times x y = to_double (x * y)"

text \<open>
  \<open>Number.prototype.toFixed(1)\<close> writes \<open>n / 10\<close> for the integer \<open>n\<close> that makes \<open>n / 10 - x\<close>
  closest to zero, the larger \<open>n\<close> if there are two.  The result here is \<open>n\<close>, the number of
  tenths.  \<open>parseFloat\<close> of that string is the number that JSON writes back as the same
  decimal \<open>n / 10\<close>.
\<close>

definition toFixed1 :: "rat \<Rightarrow> int" where
  "toFixed1 x = \<lfloor>x * 10 + 1 / 2\<rfloor>"

section \<open>GET /api/applications/stats/overview\<close>

text \<open>\<open>JobApplication.count({ where })\<close>.\<close>

definition JobApplication_count :: "(JobApplication \<Rightarrow> bool) \<Rightarrow> db \<Rightarrow> nat" where
  "JobApplication_count cond d = length (filter cond (job_applications d))"

definition responseStatuses :: "status list" where
  "responseStatuses =
     [Application_Viewed, Phone_Screening, Technical_Interview, On_site_Interview,
      Final_Interview, Reference_Check, Offer_Extended, Offer_Accepted, Offer_Declined]"

definition appliedCount :: "db \<Rightarrow> uuid \<Rightarrow> nat" where
  "appliedCount d uid = JobApplication_count (\<lambda>a. userId a = uid \<and> status a \<noteq> Interested) d"

definition responseCount :: "db \<Rightarrow> uuid \<Rightarrow> nat" where
  "responseCount d uid =
     JobApplication_count (\<lambda>a. userId a = uid \<and> array_includes responseStatuses (status a)) d"

text \<open>
  \<open>appliedCount > 0 ? (responseCount / appliedCount * 100).toFixed(1) : 0\<close>, then
  \<open>parseFloat\<close>: the decimal value of the \<open>responseRate\<close> field of the response.
\<close>

definition responseRate :: "db \<Rightarrow> uuid \<Rightarrow> rat" where
  "responseRate d uid =
     (if appliedCount d uid > 0 then
        of_int (toFixed1 (js_times (js_divide (of_nat (responseCount d uid))
                                               (of_nat (appliedCount d uid))) 100)) / 10
      else 0)"

text \<open>
  The fields of the response that do not depend on the clock (\<open>recentApplications\<close> and
  \<open>upcomingFollowUps\<close> compare dates with \<open>new Date()\<close> and are left out).
\<close>

record overview =
  totalApplications :: nat
  ov_responseRate :: rat

definition getOverviewStats :: "uuid \<Rightarrow> db \<Rightarrow> response \<times> overview" where
  "getOverviewStats reqUser d =
     (OK, \<lparr>totalApplications = JobApplication_count (\<lambda>a. userId a = reqUser) d,
           ov_responseRate = responseRate d reqUser\<rparr>)"

section \<open>Derived notions used in the statements\<close>

text \<open>The row that \<open>JobApplication.create\<close> inserts, and the row that \<open>StatusHistory.create\<close> inserts.\<close>

definition new_application :: "uuid \<Rightarrow> create_body \<Rightarrow> uuid \<Rightarrow> uuid \<Rightarrow> JobApplication" where
  "new_application u b n cid =
     \<lparr>app_id = n, userId = u, companyId = cid,
      status = (case cb_status b of None \<Rightarrow> Interested | Some s \<Rightarrow> s),
      salaryMin = cb_salaryMin b, salaryMax = cb_salaryMax b\<rparr>"

definition history_row :: "uuid \<Rightarrow> status option \<Rightarrow> status \<Rightarrow> string option \<Rightarrow> StatusHistory" where
  "history_row aid fromS toS notes =
     \<lparr>sh_jobApplicationId = aid, fromStatus = fromS, toStatus = toS, changedBy = User,
      sh_notes = notes\<rparr>"

text \<open>The four statements of the DELETE handler, in the order in which it issues them.\<close>

definition delete_cascade :: "uuid \<Rightarrow> db \<Rightarrow> db" where
  "delete_cascade aid d =
     JobApplication_destroy_where aid (Document_destroy_where aid
       (ApplicationKeyword_destroy_where aid (StatusHistory_destroy_where aid d)))"


text \<open>The primary key of \<open>job_applications\<close> is unique.\<close>

definition primary_key_unique :: "db \<Rightarrow> bool" where
  "primary_key_unique d = distinct (map app_id (job_applications d))"

section \<open>Example stores and requests\<close>

definition acme :: Company where
  "acme = \<lparr>company_id = 10, company_name = ''Acme''\<rparr>"

definition empty_store :: db where
  "empty_store =
     \<lparr>job_applications = [], status_history = [], application_keywords = [], documents = [],
      companies = [acme]\<rparr>"

text \<open>\<open>{ companyId: 10 }\<close>, with optional status and salary fields.\<close>

definition create_request :: "status option \<Rightarrow> int option \<Rightarrow> int option \<Rightarrow> create_body" where
  "create_request st mn mx =
     \<lparr>cb_companyId = Some 10, cb_status = st, cb_salaryMin = mn, cb_salaryMax = mx\<rparr>"

definition status_request :: "status \<Rightarrow> update_body" where
  "status_request st =
     \<lparr>ub_status = Some st, ub_statusNotes = None, ub_salaryMin = None, ub_salaryMax = None,
      ub_userId = None\<rparr>"

definition salary_request :: "int option \<Rightarrow> int option \<Rightarrow> update_body" where
  "salary_request mn mx =
     \<lparr>ub_status = None, ub_statusNotes = None, ub_salaryMin = mn, ub_salaryMax = mx,
      ub_userId = None\<rparr>"

text \<open>
  User 1 owns application 7 (Interested, salary 50..100) with its initial history row, one
  keyword link and one linked document; user 2 owns application 8 (Applied) with two history
  rows and a linked document; document 32 of user 1 is linked to no application.
\<close>

definition app7 :: JobApplication where
  "app7 = \<lparr>app_id = 7, userId = 1, companyId = 10, status = Interested,
            salaryMin = Some 50, salaryMax = Some 100\<rparr>"

definition app8 :: JobApplication where
  "app8 = \<lparr>app_id = 8, userId = 2, companyId = 10, status = Applied,
            salaryMin = None, salaryMax = None\<rparr>"

definition two_users :: db where
  "two_users =
     \<lparr>job_applications = [app7, app8],
      status_history =
        [transition 7 None Interested, transition 8 None Interested,
         transition 8 (Some Interested) Applied],
      application_keywords =
        [\<lparr>ak_jobApplicationId = 7, keywordId = 20\<rparr>, \<lparr>ak_jobApplicationId = 8, keywordId = 20\<rparr>],
      documents =
        [\<lparr>doc_id = 30, doc_userId = 1, doc_jobApplicationId = Some 7, isActive = True\<rparr>,
         \<lparr>doc_id = 31, doc_userId = 2, doc_jobApplicationId = Some 8, isActive = True\<rparr>,
         \<lparr>doc_id = 32, doc_userId = 1, doc_jobApplicationId = None, isActive = True\<rparr>],
      companies = [acme]\<rparr>"

text \<open>
  User 1 has four applications (Applied, Rejected, Phone Screening, Interested), user 2 has
  one (Offer Accepted).
\<close>

definition application_with :: "uuid \<Rightarrow> uuid \<Rightarrow> status \<Rightarrow> JobApplication" where
  "application_with aid uid st =
     \<lparr>app_id = aid, userId = uid, companyId = 10, status = st,
      salaryMin = None, salaryMax = None\<rparr>"

definition stats_store :: db where
  "stats_store =
     \<lparr>job_applications =
        [application_with 1 1 Applied, application_with 2 1 Rejected,
         application_with 3 1 Phone_Screening, application_with 4 1 Interested,
         application_with 5 2 Offer_Accepted],
      status_history = [], application_keywords = [], documents = [], companies = [acme]\<rparr>"

section \<open>Classification of transitions\<close>

lemma array_includes_set: "array_includes xs x = (x \<in> set xs)"
  by (induction xs) auto

lemma indexOf_from_absent: "x \<notin> set xs \<Longrightarrow> indexOf_from i xs x = - 1"
  by (induction xs arbitrary: i) auto

lemma indexOf_from_present: "x \<in> set xs \<Longrightarrow> i \<le> indexOf_from i xs x"
proof (induction xs arbitrary: i)
  case Nil
  then show ?case by simp
next
  case (Cons y ys)
  show ?case
  proof (cases "y = x")
    case True
    then show ?thesis by simp
  next
    case False
    with Cons.prems have "x \<in> set ys" by simp
    from Cons.IH [OF this, of "i + 1"] False show ?thesis by simp
  qed
qed

text \<open>
  C6 (as stated, refuted).  A row with \<open>fromStatus = null\<close> and \<open>toStatus = Rejected\<close> (the
  initial row of an application created with status Rejected) is classified as not
  positive: the test on the negative statuses comes before the test on \<open>fromStatus\<close>.
\<close>

theorem initial_row_positive_counterexample:
  "\<not> isPositiveChange (transition 0 None Rejected)"
  by (simp add: isPositiveChange_def transition_def negativeStatuses_def)

text \<open>
  C6 (amended).  A row whose \<open>fromStatus\<close> is null is classified as positive exactly when its
  \<open>toStatus\<close> is one of the ten statuses of the progression list; for Rejected, Withdrawn,
  Offer Declined and On Hold it is classified as not positive.
\<close>

theorem initial_row_positive_iff:
  "isPositiveChange (transition aid None toS) = (toS \<in> set statusProgression)"
  by (cases toS)
     (simp_all add: isPositiveChange_def transition_def negativeStatuses_def
        neutralStatuses_def statusProgression_def)

theorem initial_row_positive_iff_witness:
  "isPositiveChange (transition 3 None Phone_Screening) \<and>
   \<not> isPositiveChange (transition 3 None On_Hold)"
  using initial_row_positive_iff [of 3 Phone_Screening] initial_row_positive_iff [of 3 On_Hold]
  by (simp add: statusProgression_def)

text \<open>
  C7 (as stated, refuted).  A row from Rejected (absent from the progression list) to Applied
  is classified as positive: \<open>indexOf\<close> gives \<open>-1\<close> for Rejected and \<open>1\<close> for Applied, and
  \<open>1 > -1\<close>.
\<close>

theorem absent_from_status_counterexample:
  "isPositiveChange (transition 0 (Some Rejected) Applied)"
  by (simp add: isPositiveChange_def transition_def negativeStatuses_def neutralStatuses_def
        indexOf_def statusProgression_def)

text \<open>
  C7 (amended).  For a row whose \<open>fromStatus\<close> is non-null and absent from the progression
  list (Rejected, Withdrawn, Offer Declined or On Hold), the classification is positive
  exactly when \<open>toStatus\<close> is in the progression list; it is not positive when \<open>toStatus\<close> is
  itself one of Rejected, Withdrawn, Offer Declined or On Hold.
\<close>

theorem absent_from_status_iff:
  assumes "fromS \<notin> set statusProgression"
  shows "isPositiveChange (transition aid (Some fromS) toS) = (toS \<in> set statusProgression)"
proof -
  have f: "indexOf statusProgression fromS = - 1"
    using assms by (simp add: indexOf_def indexOf_from_absent)
  show ?thesis
  proof (cases "toS \<in> set statusProgression")
    case True
    then have "0 \<le> indexOf statusProgression toS"
      by (simp add: indexOf_def indexOf_from_present)
    moreover from True
    have "\<not> array_includes negativeStatuses toS" "\<not> array_includes neutralStatuses toS"
      by (auto simp: array_includes_set statusProgression_def negativeStatuses_def
            neutralStatuses_def)
    ultimately show ?thesis
      using True f by (simp add: isPositiveChange_def transition_def)
  next
    case False
    then have "array_includes negativeStatuses toS \<or> array_includes neutralStatuses toS"
      by (cases toS)
         (simp_all add: statusProgression_def negativeStatuses_def neutralStatuses_def)
    with False show ?thesis
      by (auto simp: isPositiveChange_def transition_def)
  qed
qed

theorem absent_from_status_iff_witness:
  "On_Hold \<notin> set statusProgression \<and>
   isPositiveChange (transition 1 (Some On_Hold) Phone_Screening) \<and>
   \<not> isPositiveChange (transition 1 (Some On_Hold) Withdrawn)"
proof -
  have h: "On_Hold \<notin> set statusProgression"
    by (simp add: statusProgression_def)
  show ?thesis
    using h absent_from_status_iff [OF h, of 1 Phone_Screening]
      absent_from_status_iff [OF h, of 1 Withdrawn]
    by (simp add: statusProgression_def)
qed

section \<open>Outcomes of the handlers\<close>

lemma id_taken_iff: "id_taken d i = (i \<in> app_id ` set (job_applications d))"
  by (auto simp: id_taken_def find_None_iff)

lemma findOne_SomeD:
  assumes "JobApplication_findOne_where d aid uid = Some a"
  shows "a \<in> set (job_applications d)" "app_id a = aid" "userId a = uid"
  using assms by (auto simp: JobApplication_findOne_where_def find_Some_iff)


lemma createApplication_disj:
  assumes "createApplication u b n F d = (r, d')"
  shows "(d' = d \<and> r \<noteq> Created) \<or>
    (\<exists>cid. cb_companyId b = Some cid \<and> \<not> id_taken d n \<and>
       (StatusHistory_create \<in> F \<and> r = Server_Error \<and>
        d' = d\<lparr>job_applications := job_applications d @ [new_application u b n cid]\<rparr>
       \<or> StatusHistory_create \<notin> F \<and> (r = Created \<or> r = Server_Error) \<and>
        d' = d\<lparr>job_applications := job_applications d @ [new_application u b n cid],
             status_history := status_history d @
              [history_row n None (status (new_application u b n cid)) None]\<rparr>))"
  using assms unfolding createApplication_def history_row_def new_application_def Let_def
  by (simp split: if_splits option.splits) 


lemma updateApplication_not_found:
  assumes "JobApplication_findOne_where d aid u = None"
  shows "snd (updateApplication u aid b F d) = d" "fst (updateApplication u aid b F d) \<noteq> OK"
  using assms by (simp_all add: updateApplication_def)

lemma updateApplication_disj:
  assumes "updateApplication u aid b F d = (r, d')"
  shows "(d' = d \<and> r \<noteq> OK) \<or>
    (\<exists>a. JobApplication_findOne_where d aid u = Some a \<and>
       ((ub_status b = None \<or> ub_status b = Some (status a)) \<and> (r = OK \<or> r = Server_Error) \<and>
          d' = JobApplication_update_where aid b d
        \<or> (\<exists>new. ub_status b = Some new \<and> new \<noteq> status a \<and>
             (StatusHistory_create \<in> F \<and> r = Server_Error \<and>
                d' = JobApplication_update_where aid b d
              \<or> StatusHistory_create \<notin> F \<and> (r = OK \<or> r = Server_Error) \<and>
                d' = (JobApplication_update_where aid b d)\<lparr>status_history := status_history d @
                  [history_row aid (Some (status a)) new (notes_or_null (ub_statusNotes b))]\<rparr>))))"
proof (cases "JobApplication_findOne_where d aid u")
  case None
  with assms updateApplication_not_found [OF None, of b F] show ?thesis by simp
next
  case (Some a)
  then have aid: "app_id a = aid" by (rule findOne_SomeD)
  have h: "status_history (JobApplication_update_where aid b d) = status_history d"
    by (simp add: JobApplication_update_where_def)
  show ?thesis
    using assms unfolding updateApplication_def history_row_def Let_def Some
    by (simp add: aid h split: if_splits option.splits)
qed

lemma deleteApplication_disj:
  assumes "deleteApplication u aid F d = (r, d')"
  shows "(d' = d \<and> r \<noteq> OK) \<or>
     (\<exists>a. JobApplication_findOne_where d aid u = Some a \<and> r = OK \<and> d' = delete_cascade aid d)"
proof (cases "JobApplication_findOne_where d aid u")
  case None
  with assms show ?thesis
    by (simp add: deleteApplication_def split: if_splits)
next
  case (Some a)
  then have aid: "app_id a = aid" by (rule findOne_SomeD)
  show ?thesis
    using assms unfolding deleteApplication_def delete_cascade_def Let_def Some
    by (simp add: aid split: if_splits)
qed


lemma createApplication_cases [consumes 1, case_names unchanged orphan inserted]:
  assumes "createApplication u b n F d = (r, d')"
  obtains "d' = d" "r \<noteq> Created"
  | cid where "cb_companyId b = Some cid" "\<not> id_taken d n" "StatusHistory_create \<in> F"
      "r = Server_Error"
      "d' = d\<lparr>job_applications := job_applications d @ [new_application u b n cid]\<rparr>"
  | cid where "cb_companyId b = Some cid" "\<not> id_taken d n" "StatusHistory_create \<notin> F"
      "r = Created \<or> r = Server_Error"
      "d' = d\<lparr>job_applications := job_applications d @ [new_application u b n cid],
             status_history := status_history d @
              [history_row n None (status (new_application u b n cid)) None]\<rparr>"
  using createApplication_disj [OF assms] by blast

lemma updateApplication_cases [consumes 1, case_names unchanged updated unrecorded recorded]:
  assumes "updateApplication u aid b F d = (r, d')"
  obtains "d' = d" "r \<noteq> OK"
  | a where "JobApplication_findOne_where d aid u = Some a"
      "ub_status b = None \<or> ub_status b = Some (status a)"
      "r = OK \<or> r = Server_Error"
      "d' = JobApplication_update_where aid b d"
  | a new where "JobApplication_findOne_where d aid u = Some a"
      "ub_status b = Some new" "new \<noteq> status a" "StatusHistory_create \<in> F" "r = Server_Error"
      "d' = JobApplication_update_where aid b d"
  | a new where "JobApplication_findOne_where d aid u = Some a"
      "ub_status b = Some new" "new \<noteq> status a" "StatusHistory_create \<notin> F"
      "r = OK \<or> r = Server_Error"
      "d' = (JobApplication_update_where aid b d)\<lparr>status_history := status_history d @
              [history_row aid (Some (status a)) new (notes_or_null (ub_statusNotes b))]\<rparr>"
  using updateApplication_disj [OF assms] by blast

lemma deleteApplication_cases [consumes 1, case_names unchanged deleted]:
  assumes "deleteApplication u aid F d = (r, d')"
  obtains "d' = d" "r \<noteq> OK"
  | a where "JobApplication_findOne_where d aid u = Some a" "r = OK"
      "d' = delete_cascade aid d"
  using deleteApplication_disj [OF assms] by blast

lemma latest_history_alt:
  "latest_history d aid =
     (if filter (\<lambda>h. sh_jobApplicationId h = aid) (status_history d) = [] then None
      else Some (last (filter (\<lambda>h. sh_jobApplicationId h = aid) (status_history d))))"
  unfolding latest_history_def
  by (cases "filter (\<lambda>h. sh_jobApplicationId h = aid) (status_history d)") simp_all

lemma latest_history_append:
  "latest_history (d\<lparr>status_history := status_history d0 @ [h]\<rparr>) aid =
     (if sh_jobApplicationId h = aid then Some h else latest_history (d\<lparr>status_history := status_history d0\<rparr>) aid)"
  by (simp add: latest_history_alt)

lemma latest_history_cong:
  "status_history d' = status_history d \<Longrightarrow> latest_history d' aid = latest_history d aid"
  by (simp add: latest_history_def)

lemma latest_history_destroy:
  "aid' \<noteq> aid \<Longrightarrow> latest_history (delete_cascade aid d) aid' = latest_history d aid'"
proof -
  assume ne: "aid' \<noteq> aid"
  have "filter (\<lambda>h. sh_jobApplicationId h = aid')
          (filter (\<lambda>h. sh_jobApplicationId h \<noteq> aid) (status_history d)) =
        filter (\<lambda>h. sh_jobApplicationId h = aid') (status_history d)"
    using ne by (auto simp: filter_filter intro: filter_cong)
  then show ?thesis
    by (simp add: latest_history_def delete_cascade_def JobApplication_destroy_where_def
          Document_destroy_where_def ApplicationKeyword_destroy_where_def
          StatusHistory_destroy_where_def)
qed

lemma ledger_consistent_iff:
  "ledger_consistent d \<longleftrightarrow>
     (\<forall>a \<in> set (job_applications d).
        \<exists>h. latest_history d (app_id a) = Some h \<and> toStatus h = status a)"
  by (auto simp: ledger_consistent_def list_all_iff split: option.splits)

lemma ledger_consistent_create:
  assumes inv: "ledger_consistent d" and res: "createApplication u b n F d = (r, d')"
    and ok: "StatusHistory_create \<notin> F"
  shows "ledger_consistent d'"
  using res
proof (cases rule: createApplication_cases)
  case unchanged
  with inv show ?thesis by simp
next
  case (orphan cid)
  with ok show ?thesis by simp
next
  case (inserted cid)
  note fresh = \<open>\<not> id_taken d n\<close>
  note d' = \<open>d' = _\<close>
  have new: "app_id (new_application u b n cid) = n"
    by (simp add: new_application_def)
  have lh: "latest_history d' aid =
      (if aid = n then Some (history_row n None (status (new_application u b n cid)) None)
       else latest_history d aid)" for aid
    unfolding d' latest_history_append
    by (auto simp: history_row_def intro: latest_history_cong)
  show ?thesis
    unfolding ledger_consistent_iff
  proof
    fix a
    assume "a \<in> set (job_applications d')"
    then consider "a \<in> set (job_applications d)" | "a = new_application u b n cid"
      by (auto simp: d')
    then show "\<exists>h. latest_history d' (app_id a) = Some h \<and> toStatus h = status a"
    proof cases
      case 1
      with fresh have "app_id a \<noteq> n" by (auto simp: id_taken_iff)
      with inv 1 show ?thesis by (simp add: lh ledger_consistent_iff)
    next
      case 2
      then show ?thesis by (simp add: lh new history_row_def)
    qed
  qed
qed

lemma assign_body_id [simp]: "app_id (assign_body b a) = app_id a"
  by (simp add: assign_body_def)

lemma ledger_consistent_update:
  assumes inv: "ledger_consistent d" and res: "updateApplication u aid b F d = (r, d')"
    and ok: "StatusHistory_create \<notin> F"
  shows "ledger_consistent d'"
  using res
proof (cases rule: updateApplication_cases)
  case unchanged
  with inv show ?thesis by simp
next
  case (updated a)
  note found = \<open>JobApplication_findOne_where d aid u = Some a\<close>
  note same = \<open>ub_status b = None \<or> ub_status b = Some (status a)\<close>
  note d' = \<open>d' = _\<close>
  have a: "a \<in> set (job_applications d)" "app_id a = aid"
    using found by (rule findOne_SomeD)+
  from inv a obtain h where h: "latest_history d aid = Some h" "toStatus h = status a"
    by (auto simp: ledger_consistent_iff)
  have lh: "latest_history d' i = latest_history d i" for i
    by (rule latest_history_cong) (simp add: d' JobApplication_update_where_def)
  show ?thesis
    unfolding ledger_consistent_iff
  proof
    fix x
    assume "x \<in> set (job_applications d')"
    then obtain y where y: "y \<in> set (job_applications d)"
      and x: "x = (if app_id y = aid then assign_body b y else y)"
      by (auto simp: d' JobApplication_update_where_def)
    from inv y obtain g where g: "latest_history d (app_id y) = Some g" "toStatus g = status y"
      by (auto simp: ledger_consistent_iff)
    show "\<exists>h. latest_history d' (app_id x) = Some h \<and> toStatus h = status x"
    proof (cases "app_id y = aid")
      case True
      with g h have "status y = status a" by simp
      with same have "status (assign_body b y) = status y"
        by (auto simp: assign_body_def)
      with True g x show ?thesis by (simp add: lh)
    next
      case False
      with g x show ?thesis by (simp add: lh)
    qed
  qed
next
  case (unrecorded a new)
  with ok show ?thesis by simp
next
  case (recorded a new)
  note new = \<open>ub_status b = Some new\<close>
  note d' = \<open>d' = _\<close>
  have lh: "latest_history d' i =
      (if i = aid then Some (history_row aid (Some (status a)) new (notes_or_null (ub_statusNotes b)))
       else latest_history d i)" for i
    unfolding d' latest_history_append
    by (auto simp: history_row_def JobApplication_update_where_def intro: latest_history_cong)
  show ?thesis
    unfolding ledger_consistent_iff
  proof
    fix x
    assume "x \<in> set (job_applications d')"
    then obtain y where y: "y \<in> set (job_applications d)"
      and x: "x = (if app_id y = aid then assign_body b y else y)"
      by (auto simp: d' JobApplication_update_where_def)
    show "\<exists>h. latest_history d' (app_id x) = Some h \<and> toStatus h = status x"
    proof (cases "app_id y = aid")
      case True
      with x new show ?thesis by (simp add: lh history_row_def assign_body_def)
    next
      case False
      with inv y x show ?thesis by (simp add: lh ledger_consistent_iff)
    qed
  qed
qed

lemma ledger_consistent_delete:
  assumes inv: "ledger_consistent d" and res: "deleteApplication u aid F d = (r, d')"
  shows "ledger_consistent d'"
  using res
proof (cases rule: deleteApplication_cases)
  case unchanged
  with inv show ?thesis by simp
next
  case (deleted a)
  note d' = \<open>d' = _\<close>
  have apps: "job_applications d' = filter (\<lambda>a. app_id a \<noteq> aid) (job_applications d)"
    by (simp add: d' delete_cascade_def JobApplication_destroy_where_def
          Document_destroy_where_def ApplicationKeyword_destroy_where_def
          StatusHistory_destroy_where_def)
  show ?thesis
    unfolding ledger_consistent_iff
  proof
    fix x
    assume "x \<in> set (job_applications d')"
    then have x: "x \<in> set (job_applications d)" "app_id x \<noteq> aid"
      by (simp_all add: apps)
    with inv show "\<exists>h. latest_history d' (app_id x) = Some h \<and> toStatus h = status x"
      by (simp add: d' latest_history_destroy ledger_consistent_iff)
  qed
qed

lemma ledger_consistent_handle:
  assumes "ledger_consistent d" "StatusHistory_create \<notin> F"
  shows "ledger_consistent (snd (handle rq F d))"
proof (cases rq)
  case (Create u b n)
  with assms ledger_consistent_create [of d u b n F "fst (createApplication u b n F d)"]
  show ?thesis by simp
next
  case (Update u aid b)
  with assms ledger_consistent_update [of d u aid b F "fst (updateApplication u aid b F d)"]
  show ?thesis by simp
next
  case (Delete u aid)
  with assms ledger_consistent_delete [of d u aid F "fst (deleteApplication u aid F d)"]
  show ?thesis by simp
qed

lemma ledger_consistent_run:
  assumes "ledger_consistent d" "\<forall>(rq, F) \<in> set ops. StatusHistory_create \<notin> F"
  shows "ledger_consistent (run ops d)"
  using assms
proof (induction ops arbitrary: d)
  case Nil
  then show ?case by simp
next
  case (Cons op ops)
  obtain rq F where op: "op = (rq, F)" by (cases op)
  with Cons.prems have "ledger_consistent (snd (handle rq F d))"
    by (simp add: ledger_consistent_handle)
  with Cons.IH [of "snd (handle rq F d)"] Cons.prems op show ?case by simp
qed


section \<open>Status and history writes\<close>

lemmas example_defs = empty_store_def acme_def create_request_def status_request_def
  salary_request_def app7_def app8_def two_users_def transition_def history_row_def

lemmas handler_eval = isInt_min0_def Company_findByPk_where_def JobApplication_findOne_where_def
  salaryRangeRejected_def truthy_def js_or_def id_taken_def JobApplication_update_where_def
  assign_body_def notes_or_null_def

text \<open>
  C1.  Claim: after any sequence of create, update and delete operations, the \<open>toStatus\<close> of
  the most recent history row of every existing application equals its live \<open>status\<close>.
  The code breaks this when a history insert rejects after the status write: user 1 creates
  application 7 (Interested), then updates it to Applied while \<open>StatusHistory.create\<close>
  rejects.  The update is answered 500, the row keeps status Applied, and the most recent
  history row still says Interested.
\<close>

theorem ledger_broken_after_failed_history_insert:
  "ledger_consistent empty_store \<and>
   run [(Create 1 (create_request None None None) 7, {}),
        (Update 1 7 (status_request Applied), {StatusHistory_create})] empty_store =
     empty_store\<lparr>job_applications :=
                   [\<lparr>app_id = 7, userId = 1, companyId = 10, status = Applied,
                     salaryMin = None, salaryMax = None\<rparr>],
                 status_history := [transition 7 None Interested]\<rparr> \<and>
   \<not> ledger_consistent
       (run [(Create 1 (create_request None None None) 7, {}),
             (Update 1 7 (status_request Applied), {StatusHistory_create})] empty_store)"
proof -
  have r: "run [(Create 1 (create_request None None None) 7, {}),
        (Update 1 7 (status_request Applied), {StatusHistory_create})] empty_store =
     empty_store\<lparr>job_applications :=
                   [\<lparr>app_id = 7, userId = 1, companyId = 10, status = Applied,
                     salaryMin = None, salaryMax = None\<rparr>],
                 status_history := [transition 7 None Interested]\<rparr>"
    by (simp add: createApplication_def updateApplication_def example_defs handler_eval)
  have "ledger_consistent empty_store"
    by (simp add: ledger_consistent_def empty_store_def)
  moreover have "\<not> ledger_consistent (empty_store\<lparr>job_applications :=
                   [\<lparr>app_id = 7, userId = 1, companyId = 10, status = Applied,
                     salaryMin = None, salaryMax = None\<rparr>],
                 status_history := [transition 7 None Interested]\<rparr>)"
    by (simp add: ledger_consistent_def latest_history_def example_defs)
  ultimately show ?thesis
    unfolding r by simp
qed

text \<open>
  C2.  Claim: the status write and the history insert of an update are one atomic unit.
  In the code \<open>application.update\<close> is committed before \<open>StatusHistory.create\<close> is called and
  nothing undoes it: when the history insert rejects, the response is 500, application 7
  has status Applied and the history is what it was.
\<close>

theorem update_status_committed_without_history:
  "updateApplication 1 7 (status_request Applied) {StatusHistory_create} two_users =
     (Server_Error, two_users\<lparr>job_applications := [app7\<lparr>status := Applied\<rparr>, app8]\<rparr>)"
  by (simp add: updateApplication_def example_defs handler_eval)

text \<open>
  C3.  Claim: the application insert and the insert of its initial history row both succeed
  or are both rolled back.  In the code \<open>JobApplication.create\<close> is committed before
  \<open>StatusHistory.create\<close> is called: when the second insert rejects, the response is 500 and
  application 7 exists with no history row.
\<close>

theorem create_leaves_application_without_history:
  "createApplication 1 (create_request None None None) 7 {StatusHistory_create} empty_store =
     (Server_Error,
      empty_store\<lparr>job_applications :=
        [\<lparr>app_id = 7, userId = 1, companyId = 10, status = Interested,
          salaryMin = None, salaryMax = None\<rparr>]\<rparr>) \<and>
   latest_history
     (snd (createApplication 1 (create_request None None None) 7 {StatusHistory_create}
             empty_store)) 7 = None"
  by (simp add: createApplication_def example_defs handler_eval latest_history_def)

text \<open>
  The salary test does its work whenever the resulting \<open>salaryMax\<close> is not \<open>0\<close>: an accepted
  create, and an accepted update of a row whose stored maximum is not negative, store an
  ordered range.
\<close>

lemma create_salary_ordered_unless_zero_max:
  assumes res: "createApplication u b n F d = (Created, d')"
    and cid: "cb_companyId b = Some cid"
    and nz: "cb_salaryMax b \<noteq> Some 0"
  shows "salary_ordered (new_application u b n cid)"
proof -
  from res cid have v: "isInt_min0 (cb_salaryMin b)" "isInt_min0 (cb_salaryMax b)"
    and ok: "\<not> salaryRangeRejected (cb_salaryMin b) (cb_salaryMax b)"
    by (auto simp: createApplication_def Let_def split: if_splits)
  show ?thesis
  proof (cases "cb_salaryMin b")
    case None
    then show ?thesis by (simp add: salary_ordered_def new_application_def)
  next
    case mn: (Some lo)
    show ?thesis
    proof (cases "cb_salaryMax b")
      case None
      with mn show ?thesis by (simp add: salary_ordered_def new_application_def)
    next
      case (Some hi)
      with nz have "hi \<noteq> 0" by simp
      with v ok mn Some have "lo \<le> hi"
        by (cases "lo = 0") (auto simp: isInt_min0_def salaryRangeRejected_def truthy_def)
      with mn Some show ?thesis by (simp add: salary_ordered_def new_application_def)
    qed
  qed
qed


lemma update_salary_ordered_unless_zero_max:
  assumes found: "JobApplication_findOne_where d aid u = Some a"
    and res: "updateApplication u aid b F d = (OK, d')"
    and stored: "isInt_min0 (salaryMax a)"
    and nz: "salaryMax (assign_body b a) \<noteq> Some 0"
  shows "salary_ordered (assign_body b a)"
proof -
  from res found have v: "isInt_min0 (ub_salaryMin b)" "isInt_min0 (ub_salaryMax b)"
    and ok: "\<not> salaryRangeRejected (js_or (ub_salaryMin b) (salaryMin a))
                (js_or (ub_salaryMax b) (salaryMax a))"
    by (auto simp: updateApplication_def Let_def split: if_splits)
  show ?thesis
  proof (cases "salaryMin (assign_body b a)")
    case None
    then show ?thesis by (simp add: salary_ordered_def)
  next
    case mn: (Some lo)
    show ?thesis
    proof (cases "salaryMax (assign_body b a)")
      case None
      with mn show ?thesis by (simp add: salary_ordered_def)
    next
      case mx: (Some hi)
      with nz have hi: "hi \<noteq> 0" by simp
      from mx v(2) stored have hi0: "0 \<le> hi"
        by (auto simp: assign_body_def isInt_min0_def split: option.splits)
      from mx hi have cmx: "js_or (ub_salaryMax b) (salaryMax a) = Some hi"
        by (auto simp: assign_body_def js_or_def truthy_def split: option.splits)
      have "lo \<le> hi"
      proof (cases "lo = 0")
        case True
        with hi0 show ?thesis by simp
      next
        case False
        with mn have "js_or (ub_salaryMin b) (salaryMin a) = Some lo"
          by (auto simp: assign_body_def js_or_def truthy_def split: option.splits)
        with ok cmx False hi show ?thesis
          by (simp add: salaryRangeRejected_def truthy_def)
      qed
      with mn mx show ?thesis by (simp add: salary_ordered_def)
    qed
  qed
qed

text \<open>
  C9.  Claim: every stored application has \<open>salaryMin \<le> salaryMax\<close> when both are present,
  a request that would break this being rejected before any write.  The range test of both
  handlers is guarded by the truthiness of the two numbers, and \<open>0\<close> is falsy: a create with
  \<open>salaryMin = 5\<close>, \<open>salaryMax = 0\<close> is answered 201 and stored, and an update with
  \<open>salaryMax = 0\<close> of an application with salary 50..100 is answered 200 and stores 50..0.
\<close>

theorem zero_salaryMax_stored_below_salaryMin:
  "createApplication 1 (create_request None (Some 5) (Some 0)) 7 {} empty_store =
     (Created,
      empty_store\<lparr>job_applications :=
                    [\<lparr>app_id = 7, userId = 1, companyId = 10, status = Interested,
                      salaryMin = Some 5, salaryMax = Some 0\<rparr>],
                  status_history := [transition 7 None Interested]\<rparr>) \<and>
   \<not> salary_ordered \<lparr>app_id = 7, userId = 1, companyId = 10, status = Interested,
                      salaryMin = Some 5, salaryMax = Some 0\<rparr> \<and>
   salary_ordered app7 \<and>
   updateApplication 1 7 (salary_request None (Some 0)) {} two_users =
     (OK, two_users\<lparr>job_applications := [app7\<lparr>salaryMax := Some 0\<rparr>, app8]\<rparr>) \<and>
   \<not> salary_ordered (app7\<lparr>salaryMax := Some 0\<rparr>)"
  by (simp add: createApplication_def updateApplication_def example_defs handler_eval
        salary_ordered_def)



section \<open>Cascade deletion\<close>

lemmas destroy_defs = delete_cascade_def JobApplication_destroy_where_def
  Document_destroy_where_def ApplicationKeyword_destroy_where_def StatusHistory_destroy_where_def



lemma id_taken_destroy_children [simp]:
  "id_taken (StatusHistory_destroy_where aid d) i = id_taken d i"
  "id_taken (ApplicationKeyword_destroy_where aid d) i = id_taken d i"
  "id_taken (Document_destroy_where aid d) i = id_taken d i"
  by (simp_all add: id_taken_def destroy_defs)







section \<open>Ownership\<close>






text \<open>The handlers keep the primary key unique.\<close>

lemma primary_key_unique_handle:
  assumes "primary_key_unique d"
  shows "primary_key_unique (snd (handle rq F d))"
proof (cases rq)
  case (Create u b n)
  have "createApplication u b n F d = (fst (createApplication u b n F d), snd (createApplication u b n F d))"
    by simp
  then have "primary_key_unique (snd (createApplication u b n F d))"
  proof (cases rule: createApplication_cases)
    case unchanged
    with assms show ?thesis by simp
  next
    case (orphan cid)
    with assms show ?thesis
      by (auto simp: primary_key_unique_def id_taken_iff new_application_def)
  next
    case (inserted cid)
    with assms show ?thesis
      by (auto simp: primary_key_unique_def id_taken_iff new_application_def)
  qed
  with Create show ?thesis by simp
next
  case (Update u aid b)
  have m: "map (app_id \<circ> (\<lambda>a. if app_id a = aid then assign_body b a else a)) xs =
      map app_id xs" for xs
    by (induction xs) auto
  have "updateApplication u aid b F d = (fst (updateApplication u aid b F d), snd (updateApplication u aid b F d))"
    by simp
  then have "primary_key_unique (snd (updateApplication u aid b F d))"
    using assms
    by (cases rule: updateApplication_cases)
       (simp_all add: primary_key_unique_def JobApplication_update_where_def m)
  with Update show ?thesis by simp
next
  case (Delete u aid)
  have "deleteApplication u aid F d = (fst (deleteApplication u aid F d), snd (deleteApplication u aid F d))"
    by simp
  then have "primary_key_unique (snd (deleteApplication u aid F d))"
    using assms
    by (cases rule: deleteApplication_cases)
       (simp_all add: primary_key_unique_def destroy_defs distinct_map_filter)
  with Delete show ?thesis by simp
qed

section \<open>Rounding of JavaScript numbers\<close>

text \<open>
  The error of one rounding is at most half a unit in the last place, which is at most
  \<open>x / 2 ^ 53\<close>: the scaled significand \<open>x / 2 powi (e - 52)\<close> lies between \<open>2 ^ 52\<close> and
  \<open>2 ^ 53\<close> by the two bounds on the binary exponent.
\<close>

lemma round_half_even_error: "\<bar>of_int (round_half_even q) - q\<bar> \<le> 1 / 2"
proof -
  define r where "r = q - of_int \<lfloor>q\<rfloor>"
  have r: "0 \<le> r" "r < 1"
    unfolding r_def by linarith+
  have q: "q = of_int \<lfloor>q\<rfloor> + r"
    by (simp add: r_def)
  consider "r < 1 / 2" | "1 / 2 < r" | "r = 1 / 2"
    by linarith
  then show ?thesis
  proof cases
    case 1
    then have "round_half_even q = \<lfloor>q\<rfloor>"
      by (simp add: round_half_even_def Let_def r_def)
    with 1 r show ?thesis by (simp add: r_def)
  next
    case 2
    then have "round_half_even q = \<lfloor>q\<rfloor> + 1"
      by (simp add: round_half_even_def Let_def r_def)
    with 2 r show ?thesis by (simp add: r_def)
  next
    case 3
    then have "round_half_even q = \<lfloor>q\<rfloor> \<or> round_half_even q = \<lfloor>q\<rfloor> + 1"
      by (simp add: round_half_even_def Let_def r_def)
    with 3 show ?thesis by (auto simp: r_def)
  qed
qed

lemma binary_exponent_le:
  assumes "0 < x"
  shows "2 powi (binary_exponent x) \<le> x"
proof -
  obtain p q where pq: "quotient_of x = (p, q)" by (cases "quotient_of x")
  then have q: "0 < q" and x: "x = of_int p / of_int q"
    by (rule quotient_of_denom_pos, rule quotient_of_div)
  from assms x q have p: "0 < p"
    by (simp add: zero_less_divide_iff)
  define e where "e = bitlen p - bitlen q"
  show ?thesis
  proof (cases "2 powi e \<le> x")
    case True
    then show ?thesis by (simp add: binary_exponent_def pq e_def)
  next
    case False
    have bp: "2 ^ nat (bitlen p - 1) \<le> p" and bq: "q < 2 ^ nat (bitlen q)"
      using bitlen_bounds [OF p] bitlen_bounds [OF q] by simp_all
    have pos: "1 \<le> bitlen p" "1 \<le> bitlen q"
      using p q bitlen_eq_zero_iff [of p] bitlen_eq_zero_iff [of q] bitlen_nonneg [of p]
        bitlen_nonneg [of q] by linarith+
    have "(2::rat) powi (e - 1) = 2 powi (bitlen p - 1) / 2 powi (bitlen q)"
      unfolding e_def by (simp add: power_int_diff [symmetric] algebra_simps)
    also have "\<dots> = 2 ^ nat (bitlen p - 1) / 2 ^ nat (bitlen q)"
      using pos by (simp add: power_int_def)
    also have "\<dots> \<le> of_int p / of_int q"
    proof -
      have "(2::rat) ^ nat (bitlen p - 1) \<le> of_int p"
        using bp by (metis of_int_le_iff of_int_numeral of_int_power)
      moreover have "(of_int q :: rat) \<le> 2 ^ nat (bitlen q)"
        using bq by (metis less_imp_le of_int_le_iff of_int_numeral of_int_power)
      moreover have "(0::rat) < of_int q" using q by simp
      moreover have "(0::rat) \<le> of_int p" using p by simp
      ultimately show ?thesis
        by (intro frac_le)
    qed
    finally have "2 powi (e - 1) \<le> x" by (simp add: x)
    with False show ?thesis by (simp add: binary_exponent_def pq e_def)
  qed
qed

lemma to_double_error:
  assumes "0 < x"
  shows "\<bar>to_double x - x\<bar> \<le> x / 2 ^ 53"
proof -
  define E where "E = binary_exponent x"
  define s where "s = x / 2 powi (E - 52)"
  have pw: "(0::rat) < 2 powi (E - 52)" by simp
  have td: "to_double x = of_int (round_half_even s) * 2 powi (E - 52)"
    using assms by (simp add: to_double_def Let_def E_def s_def)
  have xs: "x = s * 2 powi (E - 52)"
    by (simp add: s_def)
  have "to_double x - x = (of_int (round_half_even s) - s) * 2 powi (E - 52)"
    by (simp add: td algebra_simps) (simp add: s_def)
  then have "\<bar>to_double x - x\<bar> = \<bar>of_int (round_half_even s) - s\<bar> * 2 powi (E - 52)"
    by (simp add: abs_mult)
  also have "\<dots> \<le> 1 / 2 * 2 powi (E - 52)"
    by (intro mult_right_mono round_half_even_error) simp
  also have "\<dots> = 2 powi E / 2 ^ 53"
  proof -
    have "(2::rat) powi (E - 52) = 2 powi E / 2 powi 52"
      by (simp add: power_int_diff)
    then show ?thesis by simp
  qed
  also have "\<dots> \<le> x / 2 ^ 53"
    using binary_exponent_le [OF assms] by (simp add: E_def divide_right_mono)
  finally show ?thesis .
qed

lemma to_double_zero [simp]: "to_double 0 = 0"
  by (simp add: to_double_def)


lemma binary_exponent_upper:
  assumes "0 < x"
  shows "x < 2 powi (binary_exponent x + 1)"
proof -
  obtain p q where pq: "quotient_of x = (p, q)" by (cases "quotient_of x")
  then have q: "0 < q" and x: "x = of_int p / of_int q"
    by (rule quotient_of_denom_pos, rule quotient_of_div)
  from assms x q have p: "0 < p"
    by (simp add: zero_less_divide_iff)
  define e where "e = bitlen p - bitlen q"
  show ?thesis
  proof (cases "2 powi e \<le> x")
    case False
    then show ?thesis by (simp add: binary_exponent_def pq e_def)
  next
    case True
    have bp: "p < 2 ^ nat (bitlen p)" and bq: "2 ^ nat (bitlen q - 1) \<le> q"
      using bitlen_bounds [OF p] bitlen_bounds [OF q] by simp_all
    have pos: "1 \<le> bitlen p" "1 \<le> bitlen q"
      using p q bitlen_eq_zero_iff [of p] bitlen_eq_zero_iff [of q] bitlen_nonneg [of p]
        bitlen_nonneg [of q] by linarith+
    have "of_int p / of_int q < (2::rat) ^ nat (bitlen p) / 2 ^ nat (bitlen q - 1)"
    proof -
      have "of_int p < (2::rat) ^ nat (bitlen p)"
        using bp by (metis of_int_less_iff of_int_numeral of_int_power)
      moreover have "(2::rat) ^ nat (bitlen q - 1) \<le> of_int q"
        using bq by (metis of_int_le_iff of_int_numeral of_int_power)
      moreover have "(0::rat) \<le> of_int p" using p by simp
      moreover have "(0::rat) < 2 ^ nat (bitlen q - 1)" by simp
      ultimately show ?thesis
        by (intro frac_less)
    qed
    also have "\<dots> = 2 powi (bitlen p) / 2 powi (bitlen q - 1)"
      using pos by (simp add: power_int_def)
    also have "\<dots> = 2 powi (e + 1)"
      unfolding e_def by (simp add: power_int_diff [symmetric] algebra_simps)
    finally have "x < 2 powi (e + 1)"
      by (simp only: x)
    with True show ?thesis by (simp add: binary_exponent_def pq e_def)
  qed
qed

lemma int_neg_le_minus_one: "k < 0 \<Longrightarrow> (of_int k :: rat) \<le> - 1" for k :: int
proof -
  assume "k < 0"
  then have "k \<le> - 1" by simp
  then have "(of_int k :: rat) \<le> of_int (- 1)" by (simp only: of_int_le_iff)
  then show ?thesis by simp
qed

lemma nearest_half_up:
  fixes Y :: rat and k m :: int
  assumes m: "0 < m" and close: "\<bar>Y - of_int k / of_int m\<bar> < 1 / (2 * of_int m)"
  shows "\<bar>of_int \<lfloor>Y + 1 / 2\<rfloor> - of_int k / of_int m\<bar> \<le> (1 / 2 :: rat)"
proof -
  define n where "n = \<lfloor>Y + 1 / 2\<rfloor>"
  define M :: rat where "M = of_int m"
  define T :: rat where "T = of_int k / M"
  have M: "0 < M" using m by (simp add: M_def)
  have n: "of_int n \<le> Y + 1 / 2" "Y + 1 / 2 < of_int n + 1"
    unfolding n_def by linarith+
  from close have c: "Y - T < 1 / (2 * M)" "T - Y < 1 / (2 * M)"
    by (simp_all add: T_def M_def abs_less_iff)
  have lower: "of_int n - 1 / 2 \<le> T"
  proof (rule ccontr)
    assume "\<not> of_int n - 1 / 2 \<le> T"
    then have neg: "T - (of_int n - 1 / 2) < 0" by simp
    define K where "K = 2 * k - (2 * n - 1) * m"
    have eq: "T - (of_int n - 1 / 2) = of_int K / (2 * M)"
      using M by (simp add: K_def T_def M_def field_simps)
    from neg M have "of_int K < (0::rat)"
      by (simp add: eq divide_less_0_iff)
    then have "K < 0" by (simp only: of_int_less_0_iff)
    then have "(of_int K :: rat) \<le> - 1"
      by (rule int_neg_le_minus_one)
    with M have "of_int K / (2 * M) \<le> - 1 / (2 * M)"
      by (intro divide_right_mono) simp_all
    with eq have "T - (of_int n - 1 / 2) \<le> - 1 / (2 * M)"
      by simp
    with c(1) have "Y < of_int n - 1 / 2" by simp
    with n(1) show False by simp
  qed
  have upper: "T \<le> of_int n + 1 / 2"
  proof (rule ccontr)
    assume "\<not> T \<le> of_int n + 1 / 2"
    then have neg: "(of_int n + 1 / 2) - T < 0" by simp
    define K where "K = (2 * n + 1) * m - 2 * k"
    have eq: "(of_int n + 1 / 2) - T = of_int K / (2 * M)"
      using M by (simp add: K_def T_def M_def field_simps)
    from neg M have "of_int K < (0::rat)"
      by (simp add: eq divide_less_0_iff)
    then have "K < 0" by (simp only: of_int_less_0_iff)
    then have "(of_int K :: rat) \<le> - 1"
      by (rule int_neg_le_minus_one)
    with M have "of_int K / (2 * M) \<le> - 1 / (2 * M)"
      by (intro divide_right_mono) simp_all
    with eq have "(of_int n + 1 / 2) - T \<le> - 1 / (2 * M)"
      by simp
    with c(2) have "of_int n + 1 / 2 < Y" by simp
    with n(2) show False by simp
  qed
  from lower upper have "\<bar>of_int n - T\<bar> \<le> 1 / 2"
    by linarith
  then show ?thesis
    by (simp only: n_def T_def M_def)
qed


lemma quotient_times_100_error:
  fixes r a :: nat
  assumes r: "0 < r" and ra: "r \<le> a"
  shows "\<bar>js_times (js_divide (of_nat r) (of_nat a)) 100 - 100 * (of_nat r / of_nat a)\<bar>
           \<le> 300 / 2 ^ 53"
proof -
  define t :: rat where "t = of_nat r / of_nat a"
  define q where "q = to_double t"
  define y where "y = to_double (q * 100)"
  from r ra have a: "0 < a" by simp
  have t: "0 < t" "t \<le> 1"
    using r ra a by (simp_all add: t_def)
  have e1: "\<bar>q - t\<bar> \<le> t / 2 ^ 53"
    unfolding q_def by (rule to_double_error [OF t(1)])
  have small: "t / 2 ^ 53 < t"
    using t(1) by (simp add: field_simps)
  from e1 small have q: "0 < q" "q \<le> 2 * t"
    by linarith+
  then have e2: "\<bar>y - q * 100\<bar> \<le> q * 100 / 2 ^ 53"
    unfolding y_def by (intro to_double_error) simp
  have "q * 100 / 2 ^ 53 \<le> 200 * t / 2 ^ 53"
    using q(2) by (simp add: divide_right_mono)
  with e2 have e2': "\<bar>y - q * 100\<bar> \<le> 200 * t / 2 ^ 53"
    by linarith
  have "y - 100 * t = (y - q * 100) + 100 * (q - t)"
    by simp
  then have "\<bar>y - 100 * t\<bar> \<le> \<bar>y - q * 100\<bar> + \<bar>100 * (q - t)\<bar>"
    by (simp only: abs_triangle_ineq)
  also have "\<dots> = \<bar>y - q * 100\<bar> + 100 * \<bar>q - t\<bar>"
    by (simp only: abs_mult abs_numeral)
  also have "\<dots> \<le> 200 * t / 2 ^ 53 + 100 * (t / 2 ^ 53)"
    using e1 e2' by (intro add_mono mult_left_mono) simp_all
  also have "\<dots> = 300 * t / 2 ^ 53"
    by simp
  also have "\<dots> \<le> 300 / 2 ^ 53"
    using t(2) by (simp add: divide_right_mono)
  finally show ?thesis
    by (simp add: y_def q_def t_def js_times_def js_divide_def)
qed

lemma toFixed1_nearest:
  fixes r a :: nat
  assumes a: "0 < a" "a \<le> 2 ^ 40" and ra: "r \<le> a"
  shows "\<bar>of_int (toFixed1 (js_times (js_divide (of_nat r) (of_nat a)) 100)) / 10
           - of_nat r / of_nat a * 100\<bar> \<le> (1 / 20 :: rat)"
proof (cases "r = 0")
  case True
  have "\<lfloor>1 / 2 :: rat\<rfloor> = 0"
    by (rule floor_unique) simp_all
  with True show ?thesis
    by (simp add: js_times_def js_divide_def toFixed1_def)
next
  case False
  define y where "y = js_times (js_divide (of_nat r) (of_nat a)) 100"
  from False have r: "0 < r" by simp
  have A: "(0::rat) < of_nat a" "(of_nat a :: rat) \<le> 2 ^ 40"
    using a by (simp_all add: of_nat_le_iff [of a "2 ^ 40", where ?'a = rat, simplified])
  have err: "\<bar>y - 100 * (of_nat r / of_nat a)\<bar> \<le> 300 / 2 ^ 53"
    unfolding y_def by (rule quotient_times_100_error [OF r ra])
  have "y * 10 - of_int (1000 * int r) / of_int (int a) =
        10 * (y - 100 * (of_nat r / of_nat a))"
    by simp
  then have "\<bar>y * 10 - of_int (1000 * int r) / of_int (int a)\<bar> =
        10 * \<bar>y - 100 * (of_nat r / of_nat a)\<bar>"
    by (simp only: abs_mult abs_numeral)
  also have "\<dots> \<le> 3000 / 2 ^ 53"
    using err by simp
  also have "\<dots> < 1 / (2 * 2 ^ 40)"
    by simp
  also have "\<dots> \<le> 1 / (2 * of_int (int a))"
    using A by (simp add: field_simps)
  finally have close: "\<bar>y * 10 - of_int (1000 * int r) / of_int (int a)\<bar>
      < 1 / (2 * of_int (int a))" .
  have "0 < int a" using a by simp
  from nearest_half_up [OF this close]
  have "\<bar>of_int (toFixed1 y) - 1000 * of_nat r / of_nat a\<bar> \<le> (1 / 2 :: rat)"
    by (simp add: toFixed1_def)
  then have "\<bar>(of_int (toFixed1 y) - 1000 * of_nat r / of_nat a) / 10\<bar> \<le> (1 / 2 :: rat) / 10"
    by (simp only: abs_divide) simp
  moreover have "(of_int (toFixed1 y) - 1000 * of_nat r / of_nat a) / 10 =
      (of_int (toFixed1 y) / 10 - of_nat r / of_nat a * 100 :: rat)"
    by (simp add: diff_divide_distrib)
  ultimately have "\<bar>of_int (toFixed1 y) / 10 - of_nat r / of_nat a * 100\<bar> \<le> (1 / 2 :: rat) / 10"
    by (simp only:)
  then show ?thesis
    unfolding y_def by simp
qed


text \<open>
  A tie of the exact quotient is decided by the double: \<open>3 / 2000 * 100\<close> is a double
  slightly below \<open>0.15\<close> and \<open>toFixed(1)\<close> writes \<open>0.1\<close>, while \<open>1 / 2000 * 100\<close> is slightly
  above \<open>0.05\<close> and is written \<open>0.1\<close> as well.
\<close>

lemma toFixed1_ties:
  "toFixed1 (js_times (js_divide 3 2000) 100) = 1"
  "toFixed1 (js_times (js_divide 1 2000) 100) = 1"
  by code_simp+

section \<open>Response rate\<close>

lemma responseCount_le_appliedCount: "responseCount d u \<le> appliedCount d u"
proof -
  have "length (filter P xs) \<le> length (filter Q xs)" if "\<And>x. P x \<Longrightarrow> Q x"
    for P Q :: "JobApplication \<Rightarrow> bool" and xs
    using that by (induction xs) auto
  note mono = this
  show ?thesis
    unfolding responseCount_def appliedCount_def JobApplication_count_def
    by (rule mono) (auto simp: array_includes_set responseStatuses_def)
qed

text \<open>
  C8.  \<open>appliedCount\<close> is the number of the user's applications whose status is not
  Interested and \<open>responseCount\<close> the number whose status is one of the nine response
  statuses.  The \<open>responseRate\<close> of the overview is exactly \<open>0\<close> when \<open>appliedCount\<close> is \<open>0\<close>.
  Otherwise (for up to \<open>2 ^ 40\<close> applications, where the two roundings of the double
  arithmetic cannot move the quotient across a rounding boundary) it is a decimal with one
  fractional digit that differs from the exact \<open>responseCount / appliedCount * 100\<close> by at
  most \<open>0.05\<close>: the exact value rounded to one decimal place.
\<close>

theorem responseRate_rounded_to_one_decimal:
  "appliedCount d u =
     length (filter (\<lambda>a. userId a = u \<and> status a \<noteq> Interested) (job_applications d)) \<and>
   responseCount d u =
     length (filter (\<lambda>a. userId a = u \<and>
                status a \<in> {Application_Viewed, Phone_Screening, Technical_Interview,
                            On_site_Interview, Final_Interview, Reference_Check,
                            Offer_Extended, Offer_Accepted, Offer_Declined})
       (job_applications d)) \<and>
   ov_responseRate (snd (getOverviewStats u d)) = responseRate d u \<and>
   (appliedCount d u = 0 \<longrightarrow> responseRate d u = 0) \<and>
   (0 < appliedCount d u \<and> appliedCount d u \<le> 2 ^ 40 \<longrightarrow>
      (\<exists>n::int. responseRate d u = of_int n / 10) \<and>
      \<bar>responseRate d u - of_nat (responseCount d u) / of_nat (appliedCount d u) * 100\<bar>
        \<le> 1 / 20)"
proof -
  have counts: "appliedCount d u =
     length (filter (\<lambda>a. userId a = u \<and> status a \<noteq> Interested) (job_applications d))"
    "responseCount d u =
     length (filter (\<lambda>a. userId a = u \<and>
                status a \<in> {Application_Viewed, Phone_Screening, Technical_Interview,
                            On_site_Interview, Final_Interview, Reference_Check,
                            Offer_Extended, Offer_Accepted, Offer_Declined})
       (job_applications d))"
    by (simp_all add: appliedCount_def responseCount_def JobApplication_count_def
          array_includes_set responseStatuses_def)
  have field: "ov_responseRate (snd (getOverviewStats u d)) = responseRate d u"
    by (simp add: getOverviewStats_def)
  have zero: "responseRate d u = 0" if "appliedCount d u = 0"
    using that by (simp add: responseRate_def)
  have rounded: "(\<exists>n::int. responseRate d u = of_int n / 10) \<and>
      \<bar>responseRate d u - of_nat (responseCount d u) / of_nat (appliedCount d u) * 100\<bar>
        \<le> 1 / 20"
    if "0 < appliedCount d u" "appliedCount d u \<le> 2 ^ 40"
  proof -
    from that(1) have rr: "responseRate d u =
        of_int (toFixed1 (js_times (js_divide (of_nat (responseCount d u))
                                               (of_nat (appliedCount d u))) 100)) / 10"
      by (simp add: responseRate_def)
    show ?thesis
      unfolding rr
      using toFixed1_nearest [OF that responseCount_le_appliedCount [of d u]] by blast
  qed
  from counts field zero rounded show ?thesis by blast
qed

text \<open>User 1 of the example store: one response out of three applied gives \<open>33.3\<close>; user 7 has no application.\<close>

theorem responseRate_rounded_to_one_decimal_witness:
  "appliedCount stats_store 1 = 3 \<and> responseCount stats_store 1 = 1 \<and>
   responseRate stats_store 1 = 333 / 10 \<and>
   \<bar>responseRate stats_store 1 - 1 / 3 * 100\<bar> \<le> 1 / 20 \<and>
   appliedCount stats_store 7 = 0 \<and> responseRate stats_store 7 = 0"
proof -
  have c: "appliedCount stats_store 1 = 3" "responseCount stats_store 1 = 1"
    "appliedCount stats_store 7 = 0"
    by (simp_all add: appliedCount_def responseCount_def JobApplication_count_def
          stats_store_def application_with_def responseStatuses_def)
  have v: "responseRate stats_store 1 = 333 / 10"
    by code_simp
  have h: "0 < appliedCount stats_store 1 \<and> appliedCount stats_store 1 \<le> 2 ^ 40"
    using c by simp
  from responseRate_rounded_to_one_decimal [of stats_store 1]
    responseRate_rounded_to_one_decimal [of stats_store 7] c h v
  show ?thesis by simp
qed

end
